theory Spec2Isabelle
  imports Complex_Main
begin

section \<open>Numbers of the program\<close>

text \<open>
  The program computes with two kinds of floating-point value: Python's built-in
  \<open>float\<close> (the record fields, the rate, the bump and everything computed from them
  with \<open>+ - * / **\<close> and \<open>max\<close>) and numpy's \<open>np.float64\<close> (whatever has passed through
  \<open>np.log\<close>, \<open>np.sqrt\<close>, \<open>np.exp\<close> or \<open>norm.cdf\<close>). The two differ where it matters
  here: dividing a built-in float by zero raises \<open>ZeroDivisionError\<close>, dividing a
  \<open>np.float64\<close> by zero returns an infinity or a NaN.

  Finite floats are modelled as exact reals: rounding, overflow and underflow are left
  out, the literals \<open>0.5\<close> and \<open>0.001\<close> are the rationals they denote, and the real
  \<open>0\<close> stands for the float \<open>+0.0\<close> (the model has no \<open>-0.0\<close>). The inputs of every
  function are finite.
\<close>

datatype error = ZeroDivisionError

text \<open>A \<open>np.float64\<close>: finite, an infinity (\<open>Inf True\<close> is \<open>+inf\<close>) or not a number.\<close>

datatype np_float64 = Fin real | Inf bool | NaN

text \<open>What a Python expression of the program evaluates to.\<close>

datatype number = PyFloat real | NpFloat np_float64

fun to_np :: "number \<Rightarrow> np_float64" where
  "to_np (PyFloat x) = Fin x"
| "to_np (NpFloat v) = v"

fun np_neg :: "np_float64 \<Rightarrow> np_float64" where
  "np_neg (Fin x) = Fin (- x)"
| "np_neg (Inf s) = Inf (\<not> s)"
| "np_neg NaN = NaN"

fun np_add :: "np_float64 \<Rightarrow> np_float64 \<Rightarrow> np_float64" where
  "np_add (Fin x) (Fin y) = Fin (x + y)"
| "np_add (Fin x) (Inf t) = Inf t"
| "np_add (Inf s) (Fin y) = Inf s"
| "np_add (Inf s) (Inf t) = (if s = t then Inf s else NaN)"
| "np_add _ _ = NaN"

definition np_sub :: "np_float64 \<Rightarrow> np_float64 \<Rightarrow> np_float64" where
  "np_sub a b = np_add a (np_neg b)"

fun np_mul :: "np_float64 \<Rightarrow> np_float64 \<Rightarrow> np_float64" where
  "np_mul (Fin x) (Fin y) = Fin (x * y)"
| "np_mul (Fin x) (Inf t) = (if x = 0 then NaN else Inf (t = (0 < x)))"
| "np_mul (Inf s) (Fin y) = (if y = 0 then NaN else Inf (s = (0 < y)))"
| "np_mul (Inf s) (Inf t) = Inf (s = t)"
| "np_mul _ _ = NaN"

text \<open>
  Division of \<open>np.float64\<close> values never raises: a zero divisor gives an infinity with
  the sign of the dividend, or NaN when the dividend is zero too.
\<close>

fun np_div :: "np_float64 \<Rightarrow> np_float64 \<Rightarrow> np_float64" where
  "np_div (Fin x) (Fin y) =
     (if y \<noteq> 0 then Fin (x / y) else if x = 0 then NaN else Inf (0 < x))"
| "np_div (Fin x) (Inf t) = Fin 0"
| "np_div (Inf s) (Fin y) = Inf (s = (0 \<le> y))"
| "np_div _ _ = NaN"

text \<open>\<open>np.log\<close>, \<open>np.sqrt\<close> and \<open>np.exp\<close> of a built-in float.\<close>

definition np_log :: "real \<Rightarrow> np_float64" where
  "np_log x = (if 0 < x then Fin (ln x) else if x = 0 then Inf False else NaN)"

definition np_sqrt :: "real \<Rightarrow> np_float64" where
  "np_sqrt x = (if 0 \<le> x then Fin (sqrt x) else NaN)"

definition np_exp :: "real \<Rightarrow> np_float64" where
  "np_exp x = Fin (exp x)"

text \<open>Arithmetic on values of either kind: the result is a \<open>np.float64\<close> as soon as one
  operand is.\<close>

fun num_add :: "number \<Rightarrow> number \<Rightarrow> number" where
  "num_add (PyFloat x) (PyFloat y) = PyFloat (x + y)"
| "num_add a b = NpFloat (np_add (to_np a) (to_np b))"

fun num_sub :: "number \<Rightarrow> number \<Rightarrow> number" where
  "num_sub (PyFloat x) (PyFloat y) = PyFloat (x - y)"
| "num_sub a b = NpFloat (np_sub (to_np a) (to_np b))"

fun num_mul :: "number \<Rightarrow> number \<Rightarrow> number" where
  "num_mul (PyFloat x) (PyFloat y) = PyFloat (x * y)"
| "num_mul a b = NpFloat (np_mul (to_np a) (to_np b))"

fun num_div :: "number \<Rightarrow> number \<Rightarrow> error + number" where
  "num_div (PyFloat x) (PyFloat y) =
     (if y = 0 then Inl ZeroDivisionError else Inr (PyFloat (x / y)))"
| "num_div a b = Inr (NpFloat (np_div (to_np a) (to_np b)))"

text \<open>Sequencing: an exception raised by the first computation is the result.\<close>

fun bind_err :: "error + 'a \<Rightarrow> ('a \<Rightarrow> error + 'b) \<Rightarrow> error + 'b" where
  "bind_err (Inl e) f = Inl e"
| "bind_err (Inr x) f = f x"

section \<open>The standard normal distribution function\<close>

text \<open>
  \<open>scipy.stats.norm.cdf\<close> is the distribution function of the standard normal law. Its
  density \<open>exp (- x\<^sup>2 / 2) / sqrt (2 pi)\<close> has the everywhere convergent power series
  with the coefficients \<open>gauss_coeff\<close>; integrating it term by term from \<open>0\<close> gives
  \<open>cdf_coeff\<close>, and the distribution function is \<open>1/2\<close> plus that integral.
\<close>

definition gauss_coeff :: "nat \<Rightarrow> real" where
  "gauss_coeff n = (if even n then (- 1 / 2) ^ (n div 2) / fact (n div 2) else 0)"

definition cdf_coeff :: "nat \<Rightarrow> real" where
  "cdf_coeff n = (case n of 0 \<Rightarrow> 0 | Suc m \<Rightarrow> gauss_coeff m / real (Suc m))"

definition norm_pdf :: "real \<Rightarrow> real" where
  "norm_pdf x = exp (- (x\<^sup>2) / 2) / sqrt (2 * pi)"

definition norm_cdf :: "real \<Rightarrow> real" where
  "norm_cdf x = 1 / 2 + (\<Sum>n. cdf_coeff n * x ^ n) / sqrt (2 * pi)"

text \<open>\<open>norm.cdf\<close> on a \<open>np.float64\<close>: \<open>1\<close> at \<open>+inf\<close>, \<open>0\<close> at \<open>-inf\<close>, NaN at NaN.\<close>

fun norm_cdf_np :: "np_float64 \<Rightarrow> np_float64" where
  "norm_cdf_np (Fin x) = Fin (norm_cdf x)"
| "norm_cdf_np (Inf s) = Fin (if s then 1 else 0)"
| "norm_cdf_np NaN = NaN"

section \<open>Strings\<close>

text \<open>
  \<open>str.lower\<close> on ASCII text: the letters \<open>A\<close> to \<open>Z\<close> move to \<open>a\<close> to \<open>z\<close>, every other
  character stays. (No character outside ASCII lowercases to one of the letters of
  \<open>call\<close>, so the comparison with \<open>"call"\<close> is decided by the ASCII part.)
\<close>

definition lower_char :: "char \<Rightarrow> char" where
  "lower_char c =
     (case map_of (zip ''ABCDEFGHIJKLMNOPQRSTUVWXYZ'' ''abcdefghijklmnopqrstuvwxyz'') c of
        Some d \<Rightarrow> d
      | None \<Rightarrow> c)"

definition lower :: "string \<Rightarrow> string" where
  "lower s = map lower_char s"

section \<open>The instruments\<close>

record Equity =
  spot :: real
  dividend_yield :: real
  volatility :: real

record EquityOption =
  strike :: real
  time_to_maturity :: real
  put_call :: string

record EquityForward =
  fwd_strike :: real
  fwd_time_to_maturity :: real

section \<open>The pricers\<close>

text \<open>Python's \<open>a / b\<close> on built-in floats.\<close>

definition py_div :: "real \<Rightarrow> real \<Rightarrow> error + real" where
  "py_div a b = (if b = 0 then Inl ZeroDivisionError else Inr (a / b))"

text \<open>
  The two local variables \<open>d1\<close> and \<open>d2\<close> of \<open>bsm_pricer\<close>, as functions of the quotient
  \<open>S / K\<close> already computed.
\<close>

definition bsm_d1 :: "real \<Rightarrow> real \<Rightarrow> real \<Rightarrow> real \<Rightarrow> real \<Rightarrow> np_float64" where
  "bsm_d1 S_over_K T r q sigma =
     np_div (np_add (np_log S_over_K) (Fin ((r - q + 0.5 * sigma\<^sup>2) * T)))
            (np_mul (Fin sigma) (np_sqrt T))"

definition bsm_d2 :: "np_float64 \<Rightarrow> real \<Rightarrow> real \<Rightarrow> np_float64" where
  "bsm_d2 d1 T sigma = np_sub d1 (np_mul (Fin sigma) (np_sqrt T))"

definition bsm_pricer :: "Equity \<Rightarrow> EquityOption \<Rightarrow> real \<Rightarrow> error + number" where
  "bsm_pricer underlying option rate =
     (let S = spot underlying;
          K = strike option;
          T = time_to_maturity option;
          r = rate;
          q = dividend_yield underlying;
          sigma = volatility underlying
      in if T \<le> 0 then
           (if lower (put_call option) = ''call''
            then Inr (PyFloat (max (S - K) 0))
            else Inr (PyFloat (max (K - S) 0)))
         else
           bind_err (py_div S K) (\<lambda>S_over_K.
             let d1 = bsm_d1 S_over_K T r q sigma;
                 d2 = bsm_d2 d1 T sigma
             in if lower (put_call option) = ''call''
                then Inr (NpFloat
                       (np_sub (np_mul (np_mul (Fin S) (np_exp (- q * T))) (norm_cdf_np d1))
                               (np_mul (np_mul (Fin K) (np_exp (- r * T))) (norm_cdf_np d2))))
                else Inr (NpFloat
                       (np_sub (np_mul (np_mul (Fin K) (np_exp (- r * T)))
                                       (norm_cdf_np (np_neg d2)))
                               (np_mul (np_mul (Fin S) (np_exp (- q * T)))
                                       (norm_cdf_np (np_neg d1)))))))"

text \<open>The parameter \<open>bump=0.001\<close>: \<open>None\<close> is a call that leaves it out.\<close>

definition bump_arg :: "real option \<Rightarrow> real" where
  "bump_arg b = (case b of None \<Rightarrow> 0.001 | Some x \<Rightarrow> x)"

definition bsm_delta :: "Equity \<Rightarrow> EquityOption \<Rightarrow> real \<Rightarrow> real option \<Rightarrow> error + number" where
  "bsm_delta underlying option rate bump_opt =
     (let bump = bump_arg bump_opt;
          original_spot = spot underlying;
          bump_up_spot = original_spot * (1 + bump);
          bump_down_spot = original_spot * (1 - bump);
          underlying_up = \<lparr>spot = bump_up_spot,
                            dividend_yield = dividend_yield underlying,
                            volatility = volatility underlying\<rparr>;
          underlying_down = \<lparr>spot = bump_down_spot,
                              dividend_yield = dividend_yield underlying,
                              volatility = volatility underlying\<rparr>
      in bind_err (bsm_pricer underlying_up option rate) (\<lambda>price_up.
         bind_err (bsm_pricer underlying_down option rate) (\<lambda>price_down.
           num_div (num_sub price_up price_down)
                   (PyFloat (2 * (bump * original_spot))))))"

definition bsm_gamma :: "Equity \<Rightarrow> EquityOption \<Rightarrow> real \<Rightarrow> real option \<Rightarrow> error + number" where
  "bsm_gamma underlying option rate bump_opt =
     (let bump = bump_arg bump_opt;
          original_spot = spot underlying;
          bump_up_spot = original_spot * (1 + bump);
          bump_down_spot = original_spot * (1 - bump);
          underlying_up = \<lparr>spot = bump_up_spot,
                            dividend_yield = dividend_yield underlying,
                            volatility = volatility underlying\<rparr>;
          underlying_down = \<lparr>spot = bump_down_spot,
                              dividend_yield = dividend_yield underlying,
                              volatility = volatility underlying\<rparr>
      in bind_err (bsm_pricer underlying_up option rate) (\<lambda>price_up.
         bind_err (bsm_pricer underlying option rate) (\<lambda>price_mid.
         bind_err (bsm_pricer underlying_down option rate) (\<lambda>price_down.
           num_div (num_sub (num_add price_up price_down)
                            (num_mul (PyFloat 2) price_mid))
                   (PyFloat ((bump * original_spot)\<^sup>2))))))"

definition fwd_pricer :: "Equity \<Rightarrow> EquityForward \<Rightarrow> real \<Rightarrow> number" where
  "fwd_pricer underlying forward rate =
     (let S = spot underlying;
          q = dividend_yield underlying;
          r = rate;
          K = fwd_strike forward;
          T = fwd_time_to_maturity forward
      in NpFloat (np_sub (np_mul (Fin S) (np_exp ((r - q) * T)))
                         (np_mul (Fin K) (np_exp (- r * T)))))"

section \<open>Closed forms and observations used in the statements\<close>

text \<open>
  The finite real a call returned, if it returned one: \<open>None\<close> for an exception, an
  infinity or a NaN.
\<close>

definition finite_value :: "error + number \<Rightarrow> real option" where
  "finite_value res =
     (case res of
        Inl e \<Rightarrow> None
      | Inr v \<Rightarrow> (case to_np v of Fin x \<Rightarrow> Some x | Inf s \<Rightarrow> None | NaN \<Rightarrow> None))"

text \<open>The Black-Scholes-Merton formulas over the reals, as functions of the spot.\<close>

definition bs_d1 :: "real \<Rightarrow> real \<Rightarrow> real \<Rightarrow> real \<Rightarrow> real \<Rightarrow> real \<Rightarrow> real" where
  "bs_d1 K T r q sigma S =
     (ln (S / K) + (r - q + 0.5 * sigma\<^sup>2) * T) / (sigma * sqrt T)"

definition bs_d2 :: "real \<Rightarrow> real \<Rightarrow> real \<Rightarrow> real \<Rightarrow> real \<Rightarrow> real \<Rightarrow> real" where
  "bs_d2 K T r q sigma S = bs_d1 K T r q sigma S - sigma * sqrt T"

definition bs_call :: "real \<Rightarrow> real \<Rightarrow> real \<Rightarrow> real \<Rightarrow> real \<Rightarrow> real \<Rightarrow> real" where
  "bs_call K T r q sigma S =
     S * exp (- q * T) * norm_cdf (bs_d1 K T r q sigma S)
       - K * exp (- r * T) * norm_cdf (bs_d2 K T r q sigma S)"

definition bs_put :: "real \<Rightarrow> real \<Rightarrow> real \<Rightarrow> real \<Rightarrow> real \<Rightarrow> real \<Rightarrow> real" where
  "bs_put K T r q sigma S =
     K * exp (- r * T) * norm_cdf (- bs_d2 K T r q sigma S)
       - S * exp (- q * T) * norm_cdf (- bs_d1 K T r q sigma S)"

section \<open>The distribution function: derivative, symmetry, monotonicity\<close>

text \<open>
  The series defining \<open>norm_cdf\<close> converges everywhere, its derivative is the normal
  density and its value at \<open>0\<close> is \<open>1/2\<close>: it is the standard normal distribution
  function.
\<close>

lemma gauss_term: "gauss_coeff n * x ^ n = (if even n then (- (x\<^sup>2) / 2) ^ (n div 2) /\<^sub>R fact (n div 2) else 0)"
proof (cases "even n")
  case True
  then obtain k where k: "n = 2 * k" by (auto elim: evenE)
  have "x ^ (2 * k) = (x\<^sup>2) ^ k" by (simp add: power_mult)
  moreover have "(- (x\<^sup>2) / 2) ^ k = (- 1 / 2) ^ k * (x\<^sup>2) ^ k"
    by (simp add: power_mult_distrib [symmetric])
  ultimately show ?thesis using k
    by (simp add: gauss_coeff_def scaleR_conv_of_real field_simps)
next
  case False
  then show ?thesis by (simp add: gauss_coeff_def)
qed

lemma gauss_sums: "(\<lambda>n. gauss_coeff n * x ^ n) sums exp (- (x\<^sup>2) / 2)"
proof -
  have z: "(\<lambda>n::nat. 0::real) sums 0" by simp
  have "(\<lambda>n. if even n then (- (x\<^sup>2) / 2) ^ (n div 2) /\<^sub>R fact (n div 2) else 0)
          sums (0 + exp (- (x\<^sup>2) / 2))"
    by (rule sums_if [OF z exp_converges])
  then show ?thesis by (simp add: gauss_term)
qed

lemma gauss_abs_summable: "summable (\<lambda>n. norm (gauss_coeff n * y ^ n))"
proof -
  have "summable (\<lambda>n. gauss_coeff n * (\<bar>y\<bar> + 1) ^ n)"
    using gauss_sums [of "\<bar>y\<bar> + 1"] by (rule sums_summable)
  then show ?thesis
    by (rule powser_insidea) simp
qed

lemma cdf_summable: "summable (\<lambda>n. cdf_coeff n * y ^ n)"
proof -
  have "summable (\<lambda>n. \<bar>y\<bar> * norm (gauss_coeff n * y ^ n))"
    by (rule summable_mult [OF gauss_abs_summable])
  moreover have "norm (cdf_coeff (Suc n) * y ^ Suc n) \<le> \<bar>y\<bar> * norm (gauss_coeff n * y ^ n)" for n
  proof -
    have "norm (cdf_coeff (Suc n) * y ^ Suc n) = (\<bar>y\<bar> * norm (gauss_coeff n * y ^ n)) / real (Suc n)"
      by (simp add: cdf_coeff_def abs_mult power_abs)
    also have "\<dots> \<le> (\<bar>y\<bar> * norm (gauss_coeff n * y ^ n)) / 1"
      by (rule divide_left_mono) (simp_all add: mult_nonneg_nonneg)
    finally show ?thesis by simp
  qed
  ultimately have "summable (\<lambda>n. cdf_coeff (Suc n) * y ^ Suc n)"
    by (rule summable_comparison_test') 
  then show ?thesis
    by (rule summable_Suc_iff [where f = "\<lambda>n. cdf_coeff n * y ^ n", THEN iffD1])
qed

lemma diffs_cdf: "diffs cdf_coeff = gauss_coeff"
  by (rule ext) (simp add: diffs_def cdf_coeff_def)

lemma DERIV_cdf_series:
  "((\<lambda>x. \<Sum>n. cdf_coeff n * x ^ n) has_real_derivative exp (- (x\<^sup>2) / 2)) (at x)"
proof -
  have "((\<lambda>x. \<Sum>n. cdf_coeff n * x ^ n) has_real_derivative (\<Sum>n. diffs cdf_coeff n * x ^ n)) (at x)"
    by (rule termdiffs_strong_converges_everywhere) (rule cdf_summable)
  moreover have "(\<Sum>n. diffs cdf_coeff n * x ^ n) = exp (- (x\<^sup>2) / 2)"
    using gauss_sums [of x] by (simp add: diffs_cdf sums_iff)
  ultimately show ?thesis by simp
qed

lemma DERIV_norm_cdf: "(norm_cdf has_real_derivative norm_pdf x) (at x)"
proof -
  have "((\<lambda>x. (\<Sum>n. cdf_coeff n * x ^ n) / sqrt (2 * pi)) has_real_derivative
          exp (- (x\<^sup>2) / 2) / sqrt (2 * pi)) (at x)"
    by (rule DERIV_cdivide [OF DERIV_cdf_series])
  then have "((\<lambda>x. 1 / 2 + (\<Sum>n. cdf_coeff n * x ^ n) / sqrt (2 * pi)) has_real_derivative
          0 + exp (- (x\<^sup>2) / 2) / sqrt (2 * pi)) (at x)"
    by (rule DERIV_add [OF DERIV_const])
  then show ?thesis
    by (simp add: norm_cdf_def [abs_def] norm_pdf_def)
qed

lemma norm_pdf_pos: "0 < norm_pdf x"
  by (simp add: norm_pdf_def)

lemma norm_cdf_mono: "x \<le> y \<Longrightarrow> norm_cdf x \<le> norm_cdf y"
  by (rule DERIV_nonneg_imp_nondecreasing [where f = norm_cdf])
     (auto intro: DERIV_norm_cdf less_imp_le [OF norm_pdf_pos])

lemma cdf_term_odd: "cdf_coeff n * (- x) ^ n = - (cdf_coeff n * x ^ n)"
proof (cases n)
  case 0
  then show ?thesis by (simp add: cdf_coeff_def)
next
  case (Suc m)
  then show ?thesis
    by (cases "even m") (simp_all add: cdf_coeff_def gauss_coeff_def)
qed

lemma norm_cdf_minus: "norm_cdf (- x) = 1 - norm_cdf x"
proof -
  have "(\<Sum>n. cdf_coeff n * (- x) ^ n) = - (\<Sum>n. cdf_coeff n * x ^ n)"
    by (simp only: cdf_term_odd suminf_minus [OF cdf_summable])
  then show ?thesis
    by (simp add: norm_cdf_def)
qed

lemma norm_cdf_zero: "norm_cdf 0 = 1 / 2"
proof -
  have "(\<Sum>n. cdf_coeff n * 0 ^ n) = (0::real)"
  proof -
    have "(\<lambda>n. cdf_coeff n * 0 ^ n) = (\<lambda>n. 0::real)"
      by (rule ext) (simp add: cdf_coeff_def power_0_left split: nat.splits)
    then show ?thesis by simp
  qed
  then show ?thesis by (simp add: norm_cdf_def)
qed

section \<open>The closed form as a function of the spot\<close>

text \<open>
  The derivative of the call value in the spot is \<open>exp (- q T) N(d1)\<close>, which grows
  with the spot; so the call value is convex, and by parity the put value too.
\<close>

lemma bs_phi_identity:
  assumes "0 < S" "0 < K" "0 < T" "0 < sigma"
  shows "K * exp (- r * T) * norm_pdf (bs_d2 K T r q sigma S) =
         S * exp (- q * T) * norm_pdf (bs_d1 K T r q sigma S)"
proof -
  define v where "v = sigma * sqrt T"
  define d where "d = bs_d1 K T r q sigma S"
  have v: "0 < v" using assms by (simp add: v_def)
  have v2: "v\<^sup>2 = sigma\<^sup>2 * T" using assms by (simp add: v_def power_mult_distrib)
  have "d = (ln (S / K) + (r - q + 0.5 * sigma\<^sup>2) * T) / v"
    by (simp add: d_def bs_d1_def v_def)
  then have dv: "d * v = ln (S / K) + (r - q + 0.5 * sigma\<^sup>2) * T"
    using v by simp
  have e: "- ((d - v)\<^sup>2) / 2 = - (d\<^sup>2) / 2 + (ln (S / K) + (r - q) * T)"
  proof -
    have "- ((d - v)\<^sup>2) / 2 = - (d\<^sup>2) / 2 + (d * v - v\<^sup>2 / 2)"
      by (simp add: power2_eq_square field_simps)
    also have "d * v - v\<^sup>2 / 2 = ln (S / K) + (r - q) * T"
      by (simp add: dv v2 algebra_simps)
    finally show ?thesis .
  qed
  have "exp (- ((d - v)\<^sup>2) / 2) = exp (- (d\<^sup>2) / 2) * ((S / K) * exp ((r - q) * T))"
    using assms by (simp only: e exp_add) (simp add: exp_ln)
  then have p: "norm_pdf (d - v) = norm_pdf d * ((S / K) * exp ((r - q) * T))"
    by (simp add: norm_pdf_def)
  have ee: "exp (- r * T) * exp ((r - q) * T) = exp (- q * T)"
    by (simp add: exp_add [symmetric] algebra_simps)
  have ks: "K * (S / K) = S" using assms by simp
  have "K * exp (- r * T) * norm_pdf (d - v)
        = K * exp (- r * T) * (norm_pdf d * ((S / K) * exp ((r - q) * T)))"
    by (simp only: p)
  also have "\<dots> = (K * (S / K)) * (exp (- r * T) * exp ((r - q) * T)) * norm_pdf d"
    by (simp only: mult_ac)
  also have "\<dots> = S * exp (- q * T) * norm_pdf d"
    by (simp only: ee ks)
  finally have "K * exp (- r * T) * norm_pdf (d - v) = S * exp (- q * T) * norm_pdf d" .
  then show ?thesis by (simp add: d_def v_def bs_d2_def)
qed

lemma DERIV_bs_d1:
  assumes "0 < S" "0 < K" "0 < T" "0 < sigma"
  shows "(bs_d1 K T r q sigma has_real_derivative 1 / (S * (sigma * sqrt T))) (at S)"
proof -
  have "((\<lambda>S. (ln (S / K) + (r - q + 0.5 * sigma\<^sup>2) * T) / (sigma * sqrt T))
          has_real_derivative 1 / (S * (sigma * sqrt T))) (at S)"
    using assms by (auto intro!: derivative_eq_intros simp: field_simps)
  then show ?thesis by (simp add: bs_d1_def [abs_def])
qed

lemma DERIV_bs_call:
  assumes "0 < S" "0 < K" "0 < T" "0 < sigma"
  shows "(bs_call K T r q sigma has_real_derivative
            exp (- q * T) * norm_cdf (bs_d1 K T r q sigma S)) (at S)"
proof -
  let ?d1 = "bs_d1 K T r q sigma"
  let ?v = "sigma * sqrt T"
  let ?D = "1 / (S * ?v)"
  have d1: "(?d1 has_real_derivative ?D) (at S)"
    by (rule DERIV_bs_d1 [OF assms])
  have n1: "((\<lambda>S. norm_cdf (?d1 S)) has_real_derivative norm_pdf (?d1 S) * ?D) (at S)"
    by (rule DERIV_chain2 [OF DERIV_norm_cdf d1])
  have d2: "((\<lambda>S. ?d1 S - ?v) has_real_derivative ?D) (at S)"
    using DERIV_diff [OF d1 DERIV_const [of ?v]] by simp
  have n2: "((\<lambda>S. norm_cdf (?d1 S - ?v)) has_real_derivative norm_pdf (?d1 S - ?v) * ?D) (at S)"
    by (rule DERIV_chain2 [OF DERIV_norm_cdf d2])
  have m1: "((\<lambda>S. S * exp (- q * T) * norm_cdf (?d1 S)) has_real_derivative
               1 * exp (- q * T) * norm_cdf (?d1 S)
                 + norm_pdf (?d1 S) * ?D * (S * exp (- q * T))) (at S)"
    by (rule DERIV_mult [OF DERIV_cmult_right [OF DERIV_ident] n1])
  have m2: "((\<lambda>S. K * exp (- r * T) * norm_cdf (?d1 S - ?v)) has_real_derivative
               K * exp (- r * T) * (norm_pdf (?d1 S - ?v) * ?D)) (at S)"
    by (rule DERIV_cmult [OF n2])
  have id: "K * exp (- r * T) * norm_pdf (?d1 S - ?v) = S * exp (- q * T) * norm_pdf (?d1 S)"
    using bs_phi_identity [OF assms, of r q] by (simp add: bs_d2_def)
  have "1 * exp (- q * T) * norm_cdf (?d1 S) + norm_pdf (?d1 S) * ?D * (S * exp (- q * T))
          - K * exp (- r * T) * (norm_pdf (?d1 S - ?v) * ?D)
        = exp (- q * T) * norm_cdf (?d1 S)
          + (S * exp (- q * T) * norm_pdf (?d1 S) - K * exp (- r * T) * norm_pdf (?d1 S - ?v)) * ?D"
    by (simp only: algebra_simps)
  also have "\<dots> = exp (- q * T) * norm_cdf (?d1 S)"
    by (simp only: id) simp
  finally have "((\<lambda>S. S * exp (- q * T) * norm_cdf (?d1 S) - K * exp (- r * T) * norm_cdf (?d1 S - ?v))
           has_real_derivative exp (- q * T) * norm_cdf (?d1 S)) (at S)"
    using DERIV_diff [OF m1 m2] by simp
  then show ?thesis by (simp add: bs_call_def [abs_def] bs_d2_def)
qed

lemma bs_d1_mono:
  assumes "0 < a" "a \<le> b" "0 < K" "0 < T" "0 < sigma"
  shows "bs_d1 K T r q sigma a \<le> bs_d1 K T r q sigma b"
proof -
  have "ln (a / K) \<le> ln (b / K)"
    using assms by (simp add: divide_right_mono)
  moreover have "0 < sigma * sqrt T" using assms by simp
  ultimately show ?thesis
    unfolding bs_d1_def by (intro divide_right_mono add_right_mono) simp_all
qed

lemma bs_call_convex:
  assumes "0 < h" "h < S" "0 < K" "0 < T" "0 < sigma"
  shows "0 \<le> bs_call K T r q sigma (S + h) + bs_call K T r q sigma (S - h)
              - 2 * bs_call K T r q sigma S"
proof -
  let ?f = "bs_call K T r q sigma"
  let ?f' = "\<lambda>x. exp (- q * T) * norm_cdf (bs_d1 K T r q sigma x)"
  have D: "(?f has_real_derivative ?f' x) (at x)" if "0 < x" for x
    using that assms by (intro DERIV_bs_call) simp_all
  obtain z1 where z1: "S < z1" "z1 < S + h" "?f (S + h) - ?f S = (S + h - S) * ?f' z1"
    using MVT2 [of S "S + h" ?f ?f'] D assms by force
  obtain z2 where z2: "S - h < z2" "z2 < S" "?f S - ?f (S - h) = (S - (S - h)) * ?f' z2"
    using MVT2 [of "S - h" S ?f ?f'] D assms by force
  have "bs_d1 K T r q sigma z2 \<le> bs_d1 K T r q sigma z1"
    using z1 z2 assms by (intro bs_d1_mono) simp_all
  then have "?f' z2 \<le> ?f' z1"
    by (simp add: norm_cdf_mono)
  then have "h * ?f' z2 \<le> h * ?f' z1"
    using assms by (simp add: mult_left_mono)
  with z1(3) z2(3) show ?thesis by simp
qed

lemma bs_parity:
  "bs_call K T r q sigma S - bs_put K T r q sigma S = S * exp (- q * T) - K * exp (- r * T)"
  by (simp add: bs_call_def bs_put_def norm_cdf_minus algebra_simps)

lemma bs_put_convex:
  assumes "0 < h" "h < S" "0 < K" "0 < T" "0 < sigma"
  shows "0 \<le> bs_put K T r q sigma (S + h) + bs_put K T r q sigma (S - h)
              - 2 * bs_put K T r q sigma S"
proof -
  have p: "bs_put K T r q sigma x = bs_call K T r q sigma x - (x * exp (- q * T) - K * exp (- r * T))" for x
    using bs_parity [of K T r q sigma x] by simp
  have "bs_put K T r q sigma (S + h) + bs_put K T r q sigma (S - h) - 2 * bs_put K T r q sigma S
        = bs_call K T r q sigma (S + h) + bs_call K T r q sigma (S - h) - 2 * bs_call K T r q sigma S"
    by (simp add: p algebra_simps)
  then show ?thesis using bs_call_convex [OF assms] by simp
qed

section \<open>What the pricer returns: the two regimes\<close>

lemma bsm_pricer_expired:
  assumes "time_to_maturity opt \<le> 0"
  shows "bsm_pricer u opt r =
           Inr (PyFloat (if lower (put_call opt) = ''call''
                         then max (spot u - strike opt) 0
                         else max (strike opt - spot u) 0))"
  using assms by (simp add: bsm_pricer_def)

lemma bsm_pricer_closed_form:
  assumes "0 < spot u" "0 < volatility u" "0 < strike opt" "0 < time_to_maturity opt"
  shows "bsm_pricer u opt r =
           Inr (NpFloat (Fin (if lower (put_call opt) = ''call''
              then bs_call (strike opt) (time_to_maturity opt) r (dividend_yield u)
                     (volatility u) (spot u)
              else bs_put (strike opt) (time_to_maturity opt) r (dividend_yield u)
                     (volatility u) (spot u))))"
  using assms
  by (simp add: bsm_pricer_def Let_def py_div_def bsm_d1_def bsm_d2_def np_log_def
      np_sqrt_def np_exp_def np_sub_def bs_call_def bs_put_def bs_d1_def bs_d2_def)

lemma lower_put: "lower ''put'' \<noteq> ''call''"
  by (simp add: lower_def lower_char_def)

lemma lower_call: "lower ''call'' = ''call''"
  by (simp add: lower_def lower_char_def)

section \<open>Finite results\<close>

lemma finite_value_PyFloat: "finite_value (Inr (PyFloat x)) = Some x"
  by (simp add: finite_value_def)

lemma finite_value_Fin: "finite_value (Inr (NpFloat (Fin x))) = Some x"
  by (simp add: finite_value_def)

lemma finite_value_SomeD:
  assumes "finite_value res = Some x"
  shows "res = Inr (PyFloat x) \<or> res = Inr (NpFloat (Fin x))"
proof (cases res)
  case (Inl e)
  with assms show ?thesis by (simp add: finite_value_def)
next
  case (Inr v)
  with assms show ?thesis
    by (cases v) (auto simp add: finite_value_def split: np_float64.splits)
qed

lemma bsm_gamma_value:
  assumes u: "finite_value (bsm_pricer (u\<lparr>spot := spot u * (1 + bump_arg b)\<rparr>) opt r) = Some pu"
    and m: "finite_value (bsm_pricer u opt r) = Some pm"
    and d: "finite_value (bsm_pricer (u\<lparr>spot := spot u * (1 - bump_arg b)\<rparr>) opt r) = Some pd"
    and nz: "bump_arg b * spot u \<noteq> 0"
  shows "finite_value (bsm_gamma u opt r b) = Some ((pu + pd - 2 * pm) / (bump_arg b * spot u)\<^sup>2)"
proof -
  have rec: "\<lparr>spot = x, dividend_yield = dividend_yield u, volatility = volatility u\<rparr>
               = u\<lparr>spot := x\<rparr>" for x
    by simp
  have eq: "bsm_gamma u opt r b =
      bind_err (bsm_pricer (u\<lparr>spot := spot u * (1 + bump_arg b)\<rparr>) opt r) (\<lambda>price_up.
      bind_err (bsm_pricer u opt r) (\<lambda>price_mid.
      bind_err (bsm_pricer (u\<lparr>spot := spot u * (1 - bump_arg b)\<rparr>) opt r) (\<lambda>price_down.
        num_div (num_sub (num_add price_up price_down) (num_mul (PyFloat 2) price_mid))
                (PyFloat ((bump_arg b * spot u)\<^sup>2)))))"
    unfolding bsm_gamma_def Let_def rec ..
  show ?thesis
    using finite_value_SomeD [OF u] finite_value_SomeD [OF m] finite_value_SomeD [OF d] nz
    by (auto simp add: eq finite_value_def np_sub_def)
qed

lemma max_second_difference:
  fixes a h :: real
  assumes "0 \<le> h"
  shows "0 \<le> max (a + h) 0 + max (a - h) 0 - 2 * max a 0"
  using assms by (simp add: max_def)

section \<open>Degenerate inputs\<close>

text \<open>
  With a zero bump the quotient of \<open>bsm_delta\<close> is \<open>0 / 0\<close>: a \<open>ZeroDivisionError\<close> on
  built-in floats (at or after expiry), a NaN on \<open>np.float64\<close> (before expiry).
\<close>

lemma zero_bump_delta:
  "bsm_delta \<lparr>spot = 100, dividend_yield = 0, volatility = 1 / 5\<rparr>
             \<lparr>strike = 90, time_to_maturity = 0, put_call = ''call''\<rparr> (1 / 20) (Some 0)
     = Inl ZeroDivisionError
  \<and> bsm_delta \<lparr>spot = 100, dividend_yield = 0, volatility = 1 / 5\<rparr>
             \<lparr>strike = 90, time_to_maturity = 1, put_call = ''call''\<rparr> (1 / 20) (Some 0)
     = Inr (NpFloat NaN)"
  by (simp add: bsm_delta_def bump_arg_def bsm_pricer_expired bsm_pricer_closed_form np_sub_def)

section \<open>The claims\<close>

text \<open>
  Claim C1. For an equity with positive spot \<open>S\<close> and positive volatility \<open>sigma\<close>, and an
  option with positive strike \<open>K\<close> and positive time to maturity \<open>T\<close>, at any rate
  \<open>r\<close> and dividend yield \<open>q\<close>, \<open>bsm_pricer\<close> returns the finite \<open>np.float64\<close>
  \<open>S exp(-q T) N(d1) - K exp(-r T) N(d2)\<close> when \<open>put_call\<close> lowercases to \<open>call\<close>, and
  \<open>K exp(-r T) N(-d2) - S exp(-q T) N(-d1)\<close> otherwise, with
  \<open>d1 = (ln(S/K) + (r - q + 0.5 sigma\<^sup>2) T) / (sigma sqrt T)\<close> and \<open>d2 = d1 - sigma sqrt T\<close>.
\<close>

theorem bsm_pricer_formula:
  assumes "0 < spot u" and "0 < volatility u"
    and "0 < strike opt" and "0 < time_to_maturity opt"
  shows "bsm_pricer u opt r =
    (let S = spot u; K = strike opt; T = time_to_maturity opt;
         q = dividend_yield u; sigma = volatility u;
         d1 = (ln (S / K) + (r - q + 0.5 * sigma\<^sup>2) * T) / (sigma * sqrt T);
         d2 = d1 - sigma * sqrt T
     in if lower (put_call opt) = ''call''
        then Inr (NpFloat (Fin (S * exp (- q * T) * norm_cdf d1
                                  - K * exp (- r * T) * norm_cdf d2)))
        else Inr (NpFloat (Fin (K * exp (- r * T) * norm_cdf (- d2)
                                  - S * exp (- q * T) * norm_cdf (- d1)))))"
  using assms
  by (simp add: bsm_pricer_def Let_def py_div_def bsm_d1_def bsm_d2_def np_log_def
      np_sqrt_def np_exp_def np_sub_def)

text \<open>The statement above at concrete inputs.\<close>

theorem bsm_pricer_formula_witness:
  "bsm_pricer \<lparr>spot = 100, dividend_yield = 0, volatility = 1 / 5\<rparr>
              \<lparr>strike = 100, time_to_maturity = 1, put_call = ''Call''\<rparr> (1 / 20)
     = Inr (NpFloat (Fin (100 * norm_cdf (7 / 20) - 100 * exp (- (1 / 20)) * norm_cdf (3 / 20))))
   \<and> bsm_pricer \<lparr>spot = 100, dividend_yield = 0, volatility = 1 / 5\<rparr>
              \<lparr>strike = 100, time_to_maturity = 1, put_call = ''put''\<rparr> (1 / 20)
     = Inr (NpFloat (Fin (100 * exp (- (1 / 20)) * norm_cdf (- (3 / 20)) - 100 * norm_cdf (- (7 / 20)))))"
  using bsm_pricer_formula [of "\<lparr>spot = 100, dividend_yield = 0, volatility = 1 / 5\<rparr>"
          "\<lparr>strike = 100, time_to_maturity = 1, put_call = ''Call''\<rparr>" "1 / 20"]
        bsm_pricer_formula [of "\<lparr>spot = 100, dividend_yield = 0, volatility = 1 / 5\<rparr>"
          "\<lparr>strike = 100, time_to_maturity = 1, put_call = ''put''\<rparr>" "1 / 20"]
  by (simp add: Let_def lower_def lower_char_def power2_eq_square)

text \<open>
  Claim C2. When the time to maturity is zero or negative, \<open>bsm_pricer\<close> returns the intrinsic
  value, \<open>max(S - K, 0)\<close> when \<open>put_call\<close> lowercases to \<open>call\<close> and \<open>max(K - S, 0)\<close>
  otherwise, whatever the volatility, the rate, the dividend yield and the strike are:
  nothing of the general formula is evaluated.
\<close>

theorem bsm_pricer_intrinsic:
  assumes "time_to_maturity opt \<le> 0"
  shows "bsm_pricer u opt r =
           (if lower (put_call opt) = ''call''
            then Inr (PyFloat (max (spot u - strike opt) 0))
            else Inr (PyFloat (max (strike opt - spot u) 0)))"
  using assms by (simp add: bsm_pricer_def)

text \<open>The statement above at concrete inputs.\<close>

theorem bsm_pricer_intrinsic_witness:
  "bsm_pricer \<lparr>spot = 100, dividend_yield = 0, volatility = 0\<rparr>
              \<lparr>strike = 90, time_to_maturity = 0, put_call = ''call''\<rparr> (1 / 20)
     = Inr (PyFloat 10)
   \<and> bsm_pricer \<lparr>spot = 100, dividend_yield = 3, volatility = 7\<rparr>
              \<lparr>strike = 0, time_to_maturity = - 1, put_call = ''put''\<rparr> 2
     = Inr (PyFloat 0)"
  using bsm_pricer_intrinsic [of "\<lparr>strike = 90, time_to_maturity = 0, put_call = ''call''\<rparr>"
          "\<lparr>spot = 100, dividend_yield = 0, volatility = 0\<rparr>" "1 / 20"]
        bsm_pricer_intrinsic [of "\<lparr>strike = 0, time_to_maturity = - 1, put_call = ''put''\<rparr>"
          "\<lparr>spot = 100, dividend_yield = 3, volatility = 7\<rparr>" 2]
  by (simp add: lower_def lower_char_def)

text \<open>
  Claim C3. Put-call parity: for positive spot, strike, time to maturity and volatility, the
  price of the call minus the price of the put on the same equity, strike, maturity and
  rate is \<open>S exp(-q T) - K exp(-r T)\<close>.
\<close>

theorem put_call_parity:
  assumes "0 < spot u" and "0 < strike opt" and "0 < time_to_maturity opt"
    and "0 < volatility u"
  shows "\<exists>c p. bsm_pricer u (opt\<lparr>put_call := ''call''\<rparr>) r = Inr (NpFloat (Fin c))
           \<and> bsm_pricer u (opt\<lparr>put_call := ''put''\<rparr>) r = Inr (NpFloat (Fin p))
           \<and> c - p = spot u * exp (- dividend_yield u * time_to_maturity opt)
                       - strike opt * exp (- r * time_to_maturity opt)"
  using assms
  by (simp add: bsm_pricer_closed_form lower_put lower_call bs_parity)

text \<open>The statement above at concrete inputs.\<close>

theorem put_call_parity_witness:
  "\<exists>c p. bsm_pricer \<lparr>spot = 100, dividend_yield = 0, volatility = 1 / 5\<rparr>
              \<lparr>strike = 90, time_to_maturity = 1, put_call = ''call''\<rparr> (1 / 20)
             = Inr (NpFloat (Fin c))
         \<and> bsm_pricer \<lparr>spot = 100, dividend_yield = 0, volatility = 1 / 5\<rparr>
              \<lparr>strike = 90, time_to_maturity = 1, put_call = ''put''\<rparr> (1 / 20)
             = Inr (NpFloat (Fin p))
         \<and> c - p = 100 - 90 * exp (- (1 / 20))"
  using put_call_parity [of "\<lparr>spot = 100, dividend_yield = 0, volatility = 1 / 5\<rparr>"
          "\<lparr>strike = 90, time_to_maturity = 1, put_call = ''call''\<rparr>" "1 / 20"]
  by simp

text \<open>
  Claim C4. \<open>fwd_pricer\<close> returns \<open>S exp((r - q) T) - K exp(-r T)\<close> on every input: it has no
  branch and no error.
\<close>

theorem fwd_pricer_formula:
  "fwd_pricer u fwd r =
     NpFloat (Fin (spot u * exp ((r - dividend_yield u) * fwd_time_to_maturity fwd)
                     - fwd_strike fwd * exp (- r * fwd_time_to_maturity fwd)))"
  by (simp add: fwd_pricer_def Let_def np_exp_def np_sub_def)

text \<open>
  Claim C5. The option type is compared after lowercasing, and everything that is not
  \<open>call\<close> is a put. On every input, a \<open>put_call\<close> whose lowercasing is not \<open>call\<close>,
  \<open>put\<close>, \<open>PUT\<close> or any other token, gets the value of the put branch: the intrinsic
  value \<open>max(K - S, 0)\<close> at or after expiry, the put expression of the general formula
  before, which for positive spot, strike, maturity and volatility is the closed form
  \<open>K exp(-r T) N(-d2) - S exp(-q T) N(-d1)\<close>. A \<open>put_call\<close> whose lowercasing is
  \<open>call\<close>, \<open>call\<close> and \<open>CALL\<close> among them, gets the value of the call branch. No token
  raises an error: the only exception of \<open>bsm_pricer\<close> is the division \<open>S / K\<close> by a zero
  strike before expiry. So \<open>PUT\<close> and \<open>put\<close>, and \<open>CALL\<close> and \<open>call\<close>, give the same
  price.
\<close>

theorem bsm_pricer_dispatch:
  "let S = spot u; K = strike opt; T = time_to_maturity opt;
       q = dividend_yield u; sigma = volatility u;
       price = (\<lambda>token. bsm_pricer u (opt\<lparr>put_call := token\<rparr>) r);
       put_branch =
         (if T \<le> 0 then Inr (PyFloat (max (K - S) 0))
          else bind_err (py_div S K) (\<lambda>S_over_K.
            let d1 = bsm_d1 S_over_K T r q sigma; d2 = bsm_d2 d1 T sigma
            in Inr (NpFloat
                 (np_sub (np_mul (np_mul (Fin K) (np_exp (- r * T))) (norm_cdf_np (np_neg d2)))
                         (np_mul (np_mul (Fin S) (np_exp (- q * T))) (norm_cdf_np (np_neg d1)))))));
       call_branch =
         (if T \<le> 0 then Inr (PyFloat (max (S - K) 0))
          else bind_err (py_div S K) (\<lambda>S_over_K.
            let d1 = bsm_d1 S_over_K T r q sigma; d2 = bsm_d2 d1 T sigma
            in Inr (NpFloat
                 (np_sub (np_mul (np_mul (Fin S) (np_exp (- q * T))) (norm_cdf_np d1))
                         (np_mul (np_mul (Fin K) (np_exp (- r * T))) (norm_cdf_np d2))))))
   in (lower pc \<noteq> ''call'' \<longrightarrow> price pc = put_branch)
    \<and> (lower pc = ''call'' \<longrightarrow> price pc = call_branch)
    \<and> (lower pc \<noteq> ''call'' \<and> T \<le> 0 \<longrightarrow> price pc = Inr (PyFloat (max (K - S) 0)))
    \<and> (lower pc \<noteq> ''call'' \<and> 0 < S \<and> 0 < K \<and> 0 < T \<and> 0 < sigma \<longrightarrow>
          price pc = Inr (NpFloat (Fin (bs_put K T r q sigma S))))
    \<and> (lower pc = ''call'' \<and> T \<le> 0 \<longrightarrow> price pc = Inr (PyFloat (max (S - K) 0)))
    \<and> (lower pc = ''call'' \<and> 0 < S \<and> 0 < K \<and> 0 < T \<and> 0 < sigma \<longrightarrow>
          price pc = Inr (NpFloat (Fin (bs_call K T r q sigma S))))
    \<and> (T \<le> 0 \<or> K \<noteq> 0 \<longrightarrow> (\<exists>v. price pc = Inr v))
    \<and> lower ''PUT'' = ''put'' \<and> lower ''CALL'' = ''call''
    \<and> price ''put'' = put_branch \<and> price ''PUT'' = put_branch
    \<and> price ''call'' = call_branch \<and> price ''CALL'' = call_branch"
proof -
  have up: "lower ''PUT'' = ''put''" and uc: "lower ''CALL'' = ''call''"
    by (simp_all add: lower_def lower_char_def)
  have pc: "''put'' \<noteq> ''call''" by simp
  have put: "bsm_pricer u (opt\<lparr>put_call := a\<rparr>) r =
      (if time_to_maturity opt \<le> 0 then Inr (PyFloat (max (strike opt - spot u) 0))
       else bind_err (py_div (spot u) (strike opt)) (\<lambda>S_over_K.
         Inr (NpFloat
           (np_sub (np_mul (np_mul (Fin (strike opt)) (np_exp (- r * time_to_maturity opt)))
                     (norm_cdf_np (np_neg (bsm_d2 (bsm_d1 S_over_K (time_to_maturity opt) r
                        (dividend_yield u) (volatility u)) (time_to_maturity opt) (volatility u)))))
                   (np_mul (np_mul (Fin (spot u)) (np_exp (- dividend_yield u * time_to_maturity opt)))
                     (norm_cdf_np (np_neg (bsm_d1 S_over_K (time_to_maturity opt) r
                        (dividend_yield u) (volatility u)))))))))"
    if "lower a \<noteq> ''call''" for a
    using that by (simp add: bsm_pricer_def Let_def)
  have call: "bsm_pricer u (opt\<lparr>put_call := a\<rparr>) r =
      (if time_to_maturity opt \<le> 0 then Inr (PyFloat (max (spot u - strike opt) 0))
       else bind_err (py_div (spot u) (strike opt)) (\<lambda>S_over_K.
         Inr (NpFloat
           (np_sub (np_mul (np_mul (Fin (spot u)) (np_exp (- dividend_yield u * time_to_maturity opt)))
                     (norm_cdf_np (bsm_d1 S_over_K (time_to_maturity opt) r
                        (dividend_yield u) (volatility u))))
                   (np_mul (np_mul (Fin (strike opt)) (np_exp (- r * time_to_maturity opt)))
                     (norm_cdf_np (bsm_d2 (bsm_d1 S_over_K (time_to_maturity opt) r
                        (dividend_yield u) (volatility u)) (time_to_maturity opt) (volatility u))))))))"
    if "lower a = ''call''" for a
    using that by (simp add: bsm_pricer_def Let_def)
  have pute: "bsm_pricer u (opt\<lparr>put_call := a\<rparr>) r = Inr (PyFloat (max (strike opt - spot u) 0))"
    if "lower a \<noteq> ''call''" "time_to_maturity opt \<le> 0" for a
    using that by (simp add: bsm_pricer_expired)
  have calle: "bsm_pricer u (opt\<lparr>put_call := a\<rparr>) r = Inr (PyFloat (max (spot u - strike opt) 0))"
    if "lower a = ''call''" "time_to_maturity opt \<le> 0" for a
    using that by (simp add: bsm_pricer_expired)
  have putc: "bsm_pricer u (opt\<lparr>put_call := a\<rparr>) r =
      Inr (NpFloat (Fin (bs_put (strike opt) (time_to_maturity opt) r (dividend_yield u)
                           (volatility u) (spot u))))"
    if "lower a \<noteq> ''call''" "0 < spot u" "0 < strike opt" "0 < time_to_maturity opt"
      "0 < volatility u" for a
    using that by (simp add: bsm_pricer_closed_form)
  have callc: "bsm_pricer u (opt\<lparr>put_call := a\<rparr>) r =
      Inr (NpFloat (Fin (bs_call (strike opt) (time_to_maturity opt) r (dividend_yield u)
                           (volatility u) (spot u))))"
    if "lower a = ''call''" "0 < spot u" "0 < strike opt" "0 < time_to_maturity opt"
      "0 < volatility u" for a
    using that by (simp add: bsm_pricer_closed_form)
  have ok: "\<exists>v. bsm_pricer u (opt\<lparr>put_call := pc\<rparr>) r = Inr v"
    if "time_to_maturity opt \<le> 0 \<or> strike opt \<noteq> 0"
    using that by (auto simp add: bsm_pricer_def Let_def py_div_def)
  have lp: "lower ''PUT'' \<noteq> ''call''" by (simp add: up)
  show ?thesis
    unfolding Let_def
    using put [of pc] call [of pc] pute [of pc] calle [of pc] putc [of pc] callc [of pc] ok
      put [OF lower_put] put [OF lp] call [OF lower_call] call [OF uc] up uc
    by blast
qed

text \<open>
  The statement above at concrete inputs: an unknown token and \<open>PUT\<close> get the put value,
  \<open>cAlL\<close>, \<open>CALL\<close> and \<open>Call\<close> the call value, at expiry, after it and before it.
\<close>

theorem bsm_pricer_dispatch_witness:
  "bsm_pricer \<lparr>spot = 80, dividend_yield = 0, volatility = 1 / 5\<rparr>
              \<lparr>strike = 90, time_to_maturity = 0, put_call = ''Straddle''\<rparr> (1 / 20)
     = Inr (PyFloat 10)
   \<and> bsm_pricer \<lparr>spot = 80, dividend_yield = 0, volatility = 1 / 5\<rparr>
              \<lparr>strike = 90, time_to_maturity = 0, put_call = ''PUT''\<rparr> (1 / 20)
     = Inr (PyFloat 10)
   \<and> bsm_pricer \<lparr>spot = 80, dividend_yield = 0, volatility = 1 / 5\<rparr>
              \<lparr>strike = 90, time_to_maturity = 0, put_call = ''cAlL''\<rparr> (1 / 20)
     = Inr (PyFloat 0)
   \<and> bsm_pricer \<lparr>spot = 100, dividend_yield = 0, volatility = 1 / 5\<rparr>
              \<lparr>strike = 90, time_to_maturity = - 1, put_call = ''CALL''\<rparr> (1 / 20)
     = Inr (PyFloat 10)
   \<and> bsm_pricer \<lparr>spot = 100, dividend_yield = 0, volatility = 1 / 5\<rparr>
              \<lparr>strike = 100, time_to_maturity = 1, put_call = ''Straddle''\<rparr> (1 / 20)
     = Inr (NpFloat (Fin (bs_put 100 1 (1 / 20) 0 (1 / 5) 100)))
   \<and> bsm_pricer \<lparr>spot = 100, dividend_yield = 0, volatility = 1 / 5\<rparr>
              \<lparr>strike = 100, time_to_maturity = 1, put_call = ''Call''\<rparr> (1 / 20)
     = Inr (NpFloat (Fin (bs_call 100 1 (1 / 20) 0 (1 / 5) 100)))
   \<and> bs_put 100 1 (1 / 20) 0 (1 / 5) 100
       = 100 * exp (- (1 / 20)) * norm_cdf (- (3 / 20)) - 100 * norm_cdf (- (7 / 20))
   \<and> bs_call 100 1 (1 / 20) 0 (1 / 5) 100
       = 100 * norm_cdf (7 / 20) - 100 * exp (- (1 / 20)) * norm_cdf (3 / 20)"
proof -
  let ?a = "\<lparr>spot = 80, dividend_yield = 0, volatility = 1 / 5\<rparr>"
  let ?b = "\<lparr>spot = 100, dividend_yield = 0, volatility = 1 / 5\<rparr>"
  let ?e = "\<lparr>strike = 90, time_to_maturity = 0, put_call = ''x''\<rparr>"
  let ?f = "\<lparr>strike = 90, time_to_maturity = - 1, put_call = ''x''\<rparr>"
  let ?g = "\<lparr>strike = 100, time_to_maturity = 1, put_call = ''x''\<rparr>"
  have l: "lower ''Straddle'' \<noteq> ''call''" "lower ''PUT'' \<noteq> ''call''"
    "lower ''cAlL'' = ''call''" "lower ''CALL'' = ''call''" "lower ''Call'' = ''call''"
    by (simp_all add: lower_def lower_char_def)
  have 1: "bsm_pricer ?a (?e\<lparr>put_call := ''Straddle''\<rparr>) (1 / 20) = Inr (PyFloat 10)"
    using bsm_pricer_dispatch [of ?a ?e "1 / 20" "''Straddle''"] l
    by (simp add: Let_def)
  have 2: "bsm_pricer ?a (?e\<lparr>put_call := ''PUT''\<rparr>) (1 / 20) = Inr (PyFloat 10)"
    using bsm_pricer_dispatch [of ?a ?e "1 / 20" "''PUT''"] l
    by (simp add: Let_def)
  have 3: "bsm_pricer ?a (?e\<lparr>put_call := ''cAlL''\<rparr>) (1 / 20) = Inr (PyFloat 0)"
    using bsm_pricer_dispatch [of ?a ?e "1 / 20" "''cAlL''"] l
    by (simp add: Let_def)
  have 4: "bsm_pricer ?b (?f\<lparr>put_call := ''CALL''\<rparr>) (1 / 20) = Inr (PyFloat 10)"
    using bsm_pricer_dispatch [of ?b ?f "1 / 20" "''CALL''"] l
    by (simp add: Let_def)
  have 5: "bsm_pricer ?b (?g\<lparr>put_call := ''Straddle''\<rparr>) (1 / 20)
             = Inr (NpFloat (Fin (bs_put 100 1 (1 / 20) 0 (1 / 5) 100)))"
    using bsm_pricer_dispatch [of ?b ?g "1 / 20" "''Straddle''"] l
    by (simp add: Let_def py_div_def bsm_d1_def bsm_d2_def np_log_def np_sqrt_def
        np_exp_def np_sub_def bs_put_def bs_call_def bs_d1_def bs_d2_def)
  have 6: "bsm_pricer ?b (?g\<lparr>put_call := ''Call''\<rparr>) (1 / 20)
             = Inr (NpFloat (Fin (bs_call 100 1 (1 / 20) 0 (1 / 5) 100)))"
    using bsm_pricer_dispatch [of ?b ?g "1 / 20" "''Call''"] l
    by (simp add: Let_def py_div_def bsm_d1_def bsm_d2_def np_log_def np_sqrt_def
        np_exp_def np_sub_def bs_put_def bs_call_def bs_d1_def bs_d2_def)
  have 7: "bs_put 100 1 (1 / 20) 0 (1 / 5) 100
       = 100 * exp (- (1 / 20)) * norm_cdf (- (3 / 20)) - 100 * norm_cdf (- (7 / 20))"
    by (simp add: bs_put_def bs_d2_def bs_d1_def power2_eq_square)
  have 8: "bs_call 100 1 (1 / 20) 0 (1 / 5) 100
       = 100 * norm_cdf (7 / 20) - 100 * exp (- (1 / 20)) * norm_cdf (3 / 20)"
    by (simp add: bs_call_def bs_d2_def bs_d1_def power2_eq_square)
  from 1 2 3 4 5 6 7 8 show ?thesis by simp
qed

text \<open>
  Claim C6. \<open>bsm_delta\<close> is \<open>(P(spot (1 + bump)) - P(spot (1 - bump))) / (2 bump spot)\<close>, where
  \<open>P(x)\<close> is \<open>bsm_pricer\<close> on the equity with spot \<open>x\<close> and the dividend yield and
  volatility of the original; the bump left out is \<open>0.001\<close>. The first conjunct is the
  equation on every input, exceptions and non-finite values included; the last gives the
  value when both prices are finite and \<open>bump * spot\<close> is not zero.
\<close>

theorem bsm_delta_formula:
  "bsm_delta u opt r b =
     (let bump = bump_arg b; S = spot u;
          P = (\<lambda>x. bsm_pricer (u\<lparr>spot := x\<rparr>) opt r)
      in bind_err (P (S * (1 + bump))) (\<lambda>price_up.
         bind_err (P (S * (1 - bump))) (\<lambda>price_down.
           num_div (num_sub price_up price_down) (PyFloat (2 * bump * S)))))
   \<and> bump_arg None = 0.001
   \<and> (\<forall>pu pd. finite_value (bsm_pricer (u\<lparr>spot := spot u * (1 + bump_arg b)\<rparr>) opt r) = Some pu
         \<longrightarrow> finite_value (bsm_pricer (u\<lparr>spot := spot u * (1 - bump_arg b)\<rparr>) opt r) = Some pd
         \<longrightarrow> bump_arg b * spot u \<noteq> 0
         \<longrightarrow> finite_value (bsm_delta u opt r b) = Some ((pu - pd) / (2 * bump_arg b * spot u)))"
proof -
  have rec: "\<lparr>spot = x, dividend_yield = dividend_yield u, volatility = volatility u\<rparr>
               = u\<lparr>spot := x\<rparr>" for x
    by simp
  have m: "2 * (bump_arg b * spot u) = 2 * bump_arg b * spot u"
    by simp
  have eq: "bsm_delta u opt r b =
     (let bump = bump_arg b; S = spot u;
          P = (\<lambda>x. bsm_pricer (u\<lparr>spot := x\<rparr>) opt r)
      in bind_err (P (S * (1 + bump))) (\<lambda>price_up.
         bind_err (P (S * (1 - bump))) (\<lambda>price_down.
           num_div (num_sub price_up price_down) (PyFloat (2 * bump * S)))))"
    unfolding bsm_delta_def Let_def rec m ..
  have val: "finite_value (bsm_delta u opt r b) = Some ((pu - pd) / (2 * bump_arg b * spot u))"
    if u: "finite_value (bsm_pricer (u\<lparr>spot := spot u * (1 + bump_arg b)\<rparr>) opt r) = Some pu"
      and d: "finite_value (bsm_pricer (u\<lparr>spot := spot u * (1 - bump_arg b)\<rparr>) opt r) = Some pd"
      and nz: "bump_arg b * spot u \<noteq> 0" for pu pd
    using finite_value_SomeD [OF u] finite_value_SomeD [OF d] nz
    by (auto simp add: eq Let_def finite_value_def np_sub_def)
  show ?thesis
    using eq val by (simp add: bump_arg_def)
qed

text \<open>The statement above at concrete inputs.\<close>

theorem bsm_delta_formula_witness:
  "bsm_delta \<lparr>spot = 100, dividend_yield = 0, volatility = 1 / 5\<rparr>
             \<lparr>strike = 90, time_to_maturity = 0, put_call = ''call''\<rparr> (1 / 20) None
     = Inr (PyFloat 1)
   \<and> finite_value (bsm_delta \<lparr>spot = 100, dividend_yield = 0, volatility = 1 / 5\<rparr>
             \<lparr>strike = 90, time_to_maturity = 0, put_call = ''call''\<rparr> (1 / 20) (Some (1 / 2)))
     = Some ((60 - 0) / (2 * (1 / 2) * 100))"
proof -
  let ?u = "\<lparr>spot = 100, dividend_yield = 0, volatility = 1 / 5\<rparr>"
  let ?o = "\<lparr>strike = 90, time_to_maturity = 0, put_call = ''call''\<rparr>"
  have a: "finite_value (bsm_pricer (?u\<lparr>spot := spot ?u * (1 + bump_arg (Some (1 / 2)))\<rparr>) ?o (1 / 20)) = Some 60"
    by (simp add: bsm_pricer_def lower_call finite_value_def bump_arg_def)
  have b: "finite_value (bsm_pricer (?u\<lparr>spot := spot ?u * (1 - bump_arg (Some (1 / 2)))\<rparr>) ?o (1 / 20)) = Some 0"
    by (simp add: bsm_pricer_def lower_call finite_value_def bump_arg_def)
  have c: "bump_arg (Some (1 / 2)) * spot ?u \<noteq> 0"
    by (simp add: bump_arg_def)
  have d: "bump_arg (Some (1 / 2)) = 1 / 2"
    by (simp add: bump_arg_def)
  have "finite_value (bsm_delta ?u ?o (1 / 20) (Some (1 / 2)))
          = Some ((60 - 0) / (2 * bump_arg (Some (1 / 2)) * spot ?u))"
    using bsm_delta_formula [of ?u ?o "1 / 20" "Some (1 / 2)"] a b c by blast
  moreover have "bsm_delta ?u ?o (1 / 20) None = Inr (PyFloat 1)"
    using bsm_delta_formula [of ?u ?o "1 / 20" None]
    by (simp add: Let_def bsm_pricer_def lower_call)
  ultimately show ?thesis by (simp add: d)
qed

text \<open>
  Claim C7. For positive spot and strike, a bump strictly between \<open>0\<close> and \<open>1\<close>, and a
  positive volatility whenever the time to maturity is positive, the three prices are
  finite, \<open>bsm_gamma\<close> returns
  \<open>(P(spot_up) + P(spot_down) - 2 P(mid)) / (bump spot)\<^sup>2\<close>, and this is not negative,
  for calls and for puts.
\<close>

theorem bsm_gamma_nonneg:
  assumes S: "0 < spot u" and K: "0 < strike opt"
    and b0: "0 < bump_arg b" and b1: "bump_arg b < 1"
    and sig: "0 < time_to_maturity opt \<longrightarrow> 0 < volatility u"
  shows "\<exists>pu pm pd g.
      finite_value (bsm_pricer (u\<lparr>spot := spot u * (1 + bump_arg b)\<rparr>) opt r) = Some pu
    \<and> finite_value (bsm_pricer u opt r) = Some pm
    \<and> finite_value (bsm_pricer (u\<lparr>spot := spot u * (1 - bump_arg b)\<rparr>) opt r) = Some pd
    \<and> finite_value (bsm_gamma u opt r b) = Some g
    \<and> g = (pu + pd - 2 * pm) / (bump_arg b * spot u)\<^sup>2
    \<and> 0 \<le> g"
proof -
  define h where "h = bump_arg b * spot u"
  have h: "0 < h" "h < spot u"
    using S b0 b1 by (simp_all add: h_def)
  have up: "spot u * (1 + bump_arg b) = spot u + h"
    and down: "spot u * (1 - bump_arg b) = spot u - h"
    by (simp_all add: h_def algebra_simps)
  define P where "P x = (if time_to_maturity opt \<le> 0
      then (if lower (put_call opt) = ''call'' then max (x - strike opt) 0
            else max (strike opt - x) 0)
      else (if lower (put_call opt) = ''call''
            then bs_call (strike opt) (time_to_maturity opt) r (dividend_yield u) (volatility u) x
            else bs_put (strike opt) (time_to_maturity opt) r (dividend_yield u) (volatility u) x))"
    for x
  have price: "finite_value (bsm_pricer (u\<lparr>spot := x\<rparr>) opt r) = Some (P x)" if "0 < x" for x
  proof (cases "time_to_maturity opt \<le> 0")
    case True
    then show ?thesis
      by (simp add: bsm_pricer_expired finite_value_def P_def)
  next
    case False
    with sig that K show ?thesis
      by (simp add: bsm_pricer_closed_form finite_value_def P_def)
  qed
  have convex: "0 \<le> P (spot u + h) + P (spot u - h) - 2 * P (spot u)"
  proof (cases "time_to_maturity opt \<le> 0")
    case True
    show ?thesis
    proof (cases "lower (put_call opt) = ''call''")
      case c: True
      from max_second_difference [of h "spot u - strike opt"] h True c
      show ?thesis by (simp add: P_def algebra_simps)
    next
      case c: False
      from max_second_difference [of h "strike opt - spot u"] h True c
      show ?thesis by (simp add: P_def algebra_simps)
    qed
  next
    case False
    with sig have T: "0 < time_to_maturity opt" and v: "0 < volatility u" by simp_all
    show ?thesis
      using False
        bs_call_convex [OF h K T v, of r "dividend_yield u"]
        bs_put_convex [OF h K T v, of r "dividend_yield u"]
      by (simp add: P_def)
  qed
  have pu: "finite_value (bsm_pricer (u\<lparr>spot := spot u * (1 + bump_arg b)\<rparr>) opt r) = Some (P (spot u + h))"
    using price [of "spot u + h"] h S by (simp add: up)
  have pd: "finite_value (bsm_pricer (u\<lparr>spot := spot u * (1 - bump_arg b)\<rparr>) opt r) = Some (P (spot u - h))"
    using price [of "spot u - h"] h S by (simp add: down)
  have pm: "finite_value (bsm_pricer u opt r) = Some (P (spot u))"
    using price [of "spot u"] S by simp
  have nz: "bump_arg b * spot u \<noteq> 0"
    using S b0 by simp
  have g: "finite_value (bsm_gamma u opt r b)
             = Some ((P (spot u + h) + P (spot u - h) - 2 * P (spot u)) / (bump_arg b * spot u)\<^sup>2)"
    by (rule bsm_gamma_value [OF pu pm pd nz])
  have "0 \<le> (P (spot u + h) + P (spot u - h) - 2 * P (spot u)) / (bump_arg b * spot u)\<^sup>2"
    using convex by simp
  with pu pm pd g show ?thesis by blast
qed

text \<open>The statement above at concrete inputs.\<close>

theorem bsm_gamma_nonneg_witness:
  "(\<exists>g. finite_value (bsm_gamma \<lparr>spot = 100, dividend_yield = 0, volatility = 1 / 5\<rparr>
            \<lparr>strike = 90, time_to_maturity = 1, put_call = ''call''\<rparr> (1 / 20) None) = Some g
        \<and> 0 \<le> g)
   \<and> (\<exists>g. finite_value (bsm_gamma \<lparr>spot = 100, dividend_yield = 0, volatility = 0\<rparr>
            \<lparr>strike = 90, time_to_maturity = 0, put_call = ''put''\<rparr> (1 / 20) (Some (1 / 5))) = Some g
        \<and> 0 \<le> g)"
proof -
  let ?u = "\<lparr>spot = 100, dividend_yield = 0, volatility = 1 / 5\<rparr>"
  let ?o = "\<lparr>strike = 90, time_to_maturity = 1, put_call = ''call''\<rparr>"
  let ?u' = "\<lparr>spot = 100, dividend_yield = 0, volatility = 0\<rparr>"
  let ?o' = "\<lparr>strike = 90, time_to_maturity = 0, put_call = ''put''\<rparr>"
  have "\<exists>g. finite_value (bsm_gamma ?u ?o (1 / 20) None) = Some g \<and> 0 \<le> g"
    using bsm_gamma_nonneg [of ?u ?o None "1 / 20"]
    by (simp add: bump_arg_def) blast
  moreover have "\<exists>g. finite_value (bsm_gamma ?u' ?o' (1 / 20) (Some (1 / 5))) = Some g \<and> 0 \<le> g"
    using bsm_gamma_nonneg [of ?u' ?o' "Some (1 / 5)" "1 / 20"]
    by (simp add: bump_arg_def) blast
  ultimately show ?thesis by blast
qed




text \<open>
  Claim C9. At or after expiry the price does not depend on the rate, the dividend yield or
  the volatility: two calls with the same spot and the same option return the same
  result.
\<close>

theorem expired_price_independent:
  assumes "time_to_maturity opt \<le> 0" and "spot u = spot u'"
  shows "bsm_pricer u opt r = bsm_pricer u' opt r'"
  using assms by (simp add: bsm_pricer_def)

text \<open>The statement above at concrete inputs.\<close>

theorem expired_price_independent_witness:
  "bsm_pricer \<lparr>spot = 100, dividend_yield = 0, volatility = 1 / 5\<rparr>
              \<lparr>strike = 90, time_to_maturity = 0, put_call = ''call''\<rparr> (1 / 20)
   = bsm_pricer \<lparr>spot = 100, dividend_yield = 3, volatility = 0\<rparr>
              \<lparr>strike = 90, time_to_maturity = 0, put_call = ''call''\<rparr> (- 2)"
  using expired_price_independent [of "\<lparr>strike = 90, time_to_maturity = 0, put_call = ''call''\<rparr>"
          "\<lparr>spot = 100, dividend_yield = 0, volatility = 1 / 5\<rparr>"
          "\<lparr>spot = 100, dividend_yield = 3, volatility = 0\<rparr>" "1 / 20" "- 2"]
  by simp

text \<open>
  Claim C10. At or after expiry, for a positive spot and a bump strictly between \<open>0\<close> and
  \<open>1\<close>, when the three spots \<open>S (1 - bump)\<close>, \<open>S\<close> and \<open>S (1 + bump)\<close> are all at or
  above the strike, or all at or below it, \<open>bsm_gamma\<close> returns exactly \<open>0\<close>.
\<close>

theorem expired_gamma_zero:
  assumes "time_to_maturity opt \<le> 0" and "0 < spot u"
    and "0 < bump_arg b" and "bump_arg b < 1"
    and "(strike opt \<le> spot u * (1 - bump_arg b) \<and> strike opt \<le> spot u
            \<and> strike opt \<le> spot u * (1 + bump_arg b))
       \<or> (spot u * (1 - bump_arg b) \<le> strike opt \<and> spot u \<le> strike opt
            \<and> spot u * (1 + bump_arg b) \<le> strike opt)"
  shows "bsm_gamma u opt r b = Inr (PyFloat 0)"
proof -
  have nz: "(bump_arg b * spot u)\<^sup>2 \<noteq> 0"
    using assms by simp
  show ?thesis
    using assms(1,5) nz
    by (auto simp add: bsm_gamma_def Let_def bsm_pricer_expired max_def algebra_simps)
qed

text \<open>The statement above at concrete inputs.\<close>

theorem expired_gamma_zero_witness:
  "bsm_gamma \<lparr>spot = 100, dividend_yield = 0, volatility = 1 / 5\<rparr>
             \<lparr>strike = 50, time_to_maturity = 0, put_call = ''call''\<rparr> (1 / 20) None
     = Inr (PyFloat 0)
   \<and> bsm_gamma \<lparr>spot = 100, dividend_yield = 0, volatility = 1 / 5\<rparr>
             \<lparr>strike = 110, time_to_maturity = - 1, put_call = ''put''\<rparr> (1 / 20) (Some (1 / 10))
     = Inr (PyFloat 0)"
  using expired_gamma_zero [of "\<lparr>strike = 50, time_to_maturity = 0, put_call = ''call''\<rparr>"
          "\<lparr>spot = 100, dividend_yield = 0, volatility = 1 / 5\<rparr>" None "1 / 20"]
        expired_gamma_zero [of "\<lparr>strike = 110, time_to_maturity = - 1, put_call = ''put''\<rparr>"
          "\<lparr>spot = 100, dividend_yield = 0, volatility = 1 / 5\<rparr>" "Some (1 / 10)" "1 / 20"]
  by (simp add: bump_arg_def)

end
